theory Spec2Isabelle
  imports Main "HOL-Library.Word"
begin

section \<open>JavaScript strings and values\<close>

text \<open>
  A JavaScript string is a sequence of UTF-16 code units, and \<open>length\<close> counts code
  units. The regular expressions of \<open>Register.jsx\<close> carry no flag, so they match code
  unit by code unit. Field names and messages are literals of the program and are kept as
  HOL strings.
\<close>

type_synonym code_unit = "16 word"
type_synonym jsstring = "code_unit list"

definition js :: "string \<Rightarrow> jsstring" where
  "js s = map (\<lambda>c. of_nat (of_char c)) s"

datatype jsval = JUndefined | JNull | JBool bool | JNum int | JStr jsstring

text \<open>The character classes \<open>[0-9]\<close> (which is also \<open>\d\<close>), \<open>[A-Za-z]\<close> and \<open>\s\<close>
  (ECMAScript WhiteSpace and LineTerminator).\<close>

definition is_digit :: "code_unit \<Rightarrow> bool" where
  "is_digit c \<longleftrightarrow> 0x30 \<le> c \<and> c \<le> 0x39"

definition is_letter :: "code_unit \<Rightarrow> bool" where
  "is_letter c \<longleftrightarrow> (0x41 \<le> c \<and> c \<le> 0x5A) \<or> (0x61 \<le> c \<and> c \<le> 0x7A)"

definition is_space :: "code_unit \<Rightarrow> bool" where
  "is_space c \<longleftrightarrow>
     (0x09 \<le> c \<and> c \<le> 0x0D) \<or> c = 0x20 \<or> c = 0xA0 \<or> c = 0x1680 \<or>
     (0x2000 \<le> c \<and> c \<le> 0x200A) \<or> c = 0x2028 \<or> c = 0x2029 \<or> c = 0x202F \<or>
     c = 0x205F \<or> c = 0x3000 \<or> c = 0xFEFF"

text \<open>The three regular expressions of the source, as tests on a string.\<close>

definition re_any_digit :: "jsstring \<Rightarrow> bool" where
  \<comment> \<open>\<open>/[0-9]/\<close>: not anchored, so it finds a digit anywhere in the string\<close>
  "re_any_digit s \<longleftrightarrow> list_ex is_digit s"

definition re_letters :: "jsstring \<Rightarrow> bool" where
  \<comment> \<open>\<open>/^[A-Za-z\s]+$/\<close>\<close>
  "re_letters s \<longleftrightarrow> s \<noteq> [] \<and> list_all (\<lambda>c. is_letter c \<or> is_space c) s"

definition re_digits :: "jsstring \<Rightarrow> bool" where
  \<comment> \<open>\<open>/^\d+$/\<close>\<close>
  "re_digits s \<longleftrightarrow> s \<noteq> [] \<and> list_all is_digit s"

section \<open>The field schema\<close>

text \<open>
  The schema is data: per field a zod type, a string type carrying its checks in the
  order they are chained. The test zod applies for \<open>.email\<close> is the library's own
  regular expression; it is a parameter \<open>em\<close> of the validator.
\<close>

datatype check =
    Min nat string
  | Max nat string
  | Regex "jsstring \<Rightarrow> bool" string
  | Email string

datatype ztype =
    ZString "check list"
  | ZOptional ztype
  | ZLiteral jsval string

definition schema :: "(string \<times> ztype) list" where
  "schema =
   [(''title'', ZString [Min 1 ''Title is required'']),
    (''firstName'', ZString [Min 1 ''First name is required'',
                             Regex re_letters ''Only letters are allowed'']),
    (''lastName'', ZString [Min 1 ''Last name is required'',
                            Regex re_letters ''Only letters are allowed'']),
    (''position'', ZString [Min 1 ''Position is required'']),
    (''company'', ZString [Min 1 ''Company is required'']),
    (''businessArena'', ZString [Min 1 ''Business Arena is required'']),
    (''employees'', ZString [Min 1 ''Number of employees is required'']),
    (''street'', ZString [Min 1 ''Street is required'']),
    (''additionalInfo'', ZOptional (ZString [])),
    (''zipCode'', ZString [Min 1 ''Zip code is required'',
                           Regex re_digits ''Only numbers are allowed'']),
    (''place'', ZString [Min 1 ''Place is required'']),
    (''country'', ZString [Min 1 ''Country is required'']),
    (''code'', ZString [Min 1 ''Code is required'',
                        Regex re_digits ''Only numbers are allowed'']),
    (''phoneNumber'', ZString [Min 1 ''Phone number is required'',
                               Regex re_digits ''Only numbers are allowed'',
                               Min 10 ''Phone number must be at least 10 digits'',
                               Max 15 ''Phone number must not exceed 15 digits'']),
    (''email'', ZString [Min 1 ''Email is required'', Email ''Invalid email format'']),
    (''acceptTerms'', ZLiteral (JBool True) ''You must accept the terms'')]"

section \<open>The validator\<close>

text \<open>
  zod runs every check of a string type and records one issue per failing check, in
  order; a value that is not a string gives the single type issue. The resolver of the
  form library then keeps, per field, the message of the first issue.
\<close>

fun check_fails :: "(jsstring \<Rightarrow> bool) \<Rightarrow> check \<Rightarrow> jsstring \<Rightarrow> bool" where
  "check_fails em (Min n m) s \<longleftrightarrow> length s < n"
| "check_fails em (Max n m) s \<longleftrightarrow> length s > n"
| "check_fails em (Regex r m) s \<longleftrightarrow> \<not> r s"
| "check_fails em (Email m) s \<longleftrightarrow> \<not> em s"

fun message :: "check \<Rightarrow> string" where
  "message (Min n m) = m"
| "message (Max n m) = m"
| "message (Regex r m) = m"
| "message (Email m) = m"

fun getParsedType :: "jsval \<Rightarrow> string" where
  "getParsedType JUndefined = ''undefined''"
| "getParsedType JNull = ''null''"
| "getParsedType (JBool b) = ''boolean''"
| "getParsedType (JNum n) = ''number''"
| "getParsedType (JStr s) = ''string''"

fun zod_issues :: "(jsstring \<Rightarrow> bool) \<Rightarrow> ztype \<Rightarrow> jsval \<Rightarrow> string list" where
  "zod_issues em (ZString cs) (JStr s) = map message (filter (\<lambda>c. check_fails em c s) cs)"
| "zod_issues em (ZString cs) JUndefined = [''Required'']"
| "zod_issues em (ZString cs) v = [''Expected string, received '' @ getParsedType v]"
| "zod_issues em (ZOptional t) v = (if v = JUndefined then [] else zod_issues em t v)"
| "zod_issues em (ZLiteral lit m) v = (if v = lit then [] else [m])"

type_synonym form_data = "string \<Rightarrow> jsval"

definition object_issues ::
  "(jsstring \<Rightarrow> bool) \<Rightarrow> (string \<times> ztype) list \<Rightarrow> form_data \<Rightarrow> (string \<times> string) list" where
  "object_issues em shape d = concat (map (\<lambda>(k, t). map (Pair k) (zod_issues em t (d k))) shape)"

fun toErrors :: "(string \<rightharpoonup> string) \<Rightarrow> (string \<times> string) list \<Rightarrow> (string \<rightharpoonup> string)" where
  "toErrors errs [] = errs"
| "toErrors errs ((p, m) # rest) =
     toErrors (if errs p = None then errs(p \<mapsto> m) else errs) rest"

definition validate :: "(jsstring \<Rightarrow> bool) \<Rightarrow> form_data \<Rightarrow> (string \<rightharpoonup> string)" where
  "validate em d = toErrors Map.empty (object_issues em schema d)"

text \<open>
  The resolver answers with the error mapping when zod reports an issue and with the
  data otherwise.
\<close>

definition zodResolver ::
  "(jsstring \<Rightarrow> bool) \<Rightarrow> form_data \<Rightarrow> (string \<rightharpoonup> string) + form_data" where
  "zodResolver em d =
     (if object_issues em schema d = [] then Inr d else Inl (validate em d))"

section \<open>The input filter\<close>

text \<open>
  The component holds two mappings of transient errors. \<open>setTimeout\<close> is modelled by a
  list of pending timers, each with the time at which it is due, and a clock; no timer
  is ever cancelled in the source. A handler returns whether it called
  \<open>preventDefault\<close>, and the new state.
\<close>

record key_event =
  key :: jsstring
  target_value :: jsstring

datatype callback = ClearName string | ClearNumeric string

record ui_state =
  nameErrors :: "string \<rightharpoonup> string"
  numericErrors :: "string \<rightharpoonup> string"
  timers :: "(nat \<times> callback) list"
  now :: nat

definition initial_ui :: ui_state where
  "initial_ui =
     \<lparr>nameErrors = [''firstName'' \<mapsto> [], ''lastName'' \<mapsto> []],
      numericErrors = [''zipCode'' \<mapsto> [], ''code'' \<mapsto> [], ''phoneNumber'' \<mapsto> []],
      timers = [], now = 0\<rparr>"

definition setNameErrors :: "string \<Rightarrow> string \<Rightarrow> ui_state \<Rightarrow> ui_state" where
  "setNameErrors fieldName m s = s\<lparr>nameErrors := (nameErrors s)(fieldName \<mapsto> m)\<rparr>"

definition setNumericErrors :: "string \<Rightarrow> string \<Rightarrow> ui_state \<Rightarrow> ui_state" where
  "setNumericErrors fieldName m s = s\<lparr>numericErrors := (numericErrors s)(fieldName \<mapsto> m)\<rparr>"

definition setTimeout :: "callback \<Rightarrow> nat \<Rightarrow> ui_state \<Rightarrow> ui_state" where
  "setTimeout cb delay s = s\<lparr>timers := timers s @ [(now s + delay, cb)]\<rparr>"

definition handleNameInput :: "key_event \<Rightarrow> string \<Rightarrow> ui_state \<Rightarrow> bool \<times> ui_state" where
  "handleNameInput e fieldName s =
     (if re_any_digit (key e)
      then (True, setTimeout (ClearName fieldName) 2000
                    (setNameErrors fieldName ''Numbers are not allowed in this field'' s))
      else (False, s))"

definition handleNumericInput :: "key_event \<Rightarrow> string \<Rightarrow> ui_state \<Rightarrow> bool \<times> ui_state" where
  "handleNumericInput e fieldName s =
     (if \<not> re_any_digit (key e) \<and> key e \<noteq> js ''Backspace'' \<and>
         key e \<noteq> js ''Delete'' \<and> key e \<noteq> js ''Tab''
      then (True, setTimeout (ClearNumeric fieldName) 2000
                    (setNumericErrors fieldName ''Only numbers are allowed in this field'' s))
      else if re_any_digit (key e) \<and> length (target_value e) \<ge> 10
      then (True, setTimeout (ClearNumeric fieldName) 2000
                    (setNumericErrors fieldName ''Maximum 10 digits allowed'' s))
      else (False, s))"

text \<open>A timer that fires writes the empty message at its own field of its own mapping.\<close>

fun run_callback :: "callback \<Rightarrow> ui_state \<Rightarrow> ui_state" where
  "run_callback (ClearName fieldName) s = setNameErrors fieldName [] s"
| "run_callback (ClearNumeric fieldName) s = setNumericErrors fieldName [] s"

text \<open>
  The clock reaches time \<open>t\<close>: the timers due by then fire, earliest first (and in the
  order they were set when due together); the others stay pending.
\<close>

definition advance :: "nat \<Rightarrow> ui_state \<Rightarrow> ui_state" where
  "advance t s =
     (let due = sort_key fst (filter (\<lambda>(d, cb). d \<le> t) (timers s));
          s' = fold (\<lambda>(d, cb). run_callback cb) due s
      in s'\<lparr>timers := filter (\<lambda>(d, cb). \<not> d \<le> t) (timers s), now := max (now s) t\<rparr>)"

text \<open>
  Typing into a name field. The \<open>keypress\<close> handler runs first; unless it prevented the
  default action, the browser inserts the typed character at the caret (the key
  \<open>Enter\<close> inserts nothing into a one-line input).
\<close>

definition default_insert :: "jsstring \<Rightarrow> nat \<Rightarrow> jsstring \<Rightarrow> jsstring" where
  "default_insert k caret v =
     (if k = js ''Enter'' then v else take caret v @ k @ drop caret v)"

definition keypress_name ::
  "string \<Rightarrow> jsstring \<times> nat \<Rightarrow> jsstring \<times> ui_state \<Rightarrow> jsstring \<times> ui_state" where
  "keypress_name fieldName kc vs =
     (case handleNameInput \<lparr>key = fst kc, target_value = fst vs\<rparr> fieldName (snd vs) of
        (prevented, s') \<Rightarrow>
          (if prevented then fst vs else default_insert (fst kc) (snd kc) (fst vs), s'))"

definition type_keys ::
  "string \<Rightarrow> (jsstring \<times> nat) list \<Rightarrow> jsstring \<times> ui_state \<Rightarrow> jsstring \<times> ui_state" where
  "type_keys fieldName ks vs = fold (keypress_name fieldName) ks vs"

section \<open>The submission flow\<close>

record dialog =
  title :: string
  body_text :: string
  icon :: string
  confirmButtonText :: string
  confirmButtonColor :: string

definition success_dialog :: dialog where
  "success_dialog =
     \<lparr>title = ''Success!'', body_text = ''Registration completed successfully'',
      icon = ''success'', confirmButtonText = ''OK'', confirmButtonColor = ''#4CAF50''\<rparr>"

definition error_dialog :: dialog where
  "error_dialog =
     \<lparr>title = ''Error!'', body_text = ''Something went wrong. Please try again.'',
      icon = ''error'', confirmButtonText = ''OK'', confirmButtonColor = ''#f44336''\<rparr>"

definition warning_dialog :: dialog where
  "warning_dialog =
     \<lparr>title = ''Validation Error'', body_text = ''Please check all required fields'',
      icon = ''warning'', confirmButtonText = ''OK'', confirmButtonColor = ''#ff9800''\<rparr>"

text \<open>
  What the flow does is recorded as a trace: waiting on the simulated delay, showing a
  dialog, resetting the form. An awaited promise either fulfils or rejects; the outcome
  is an input of the model (the delay of the source only ever resolves).
\<close>

datatype effect = Wait nat | Fire dialog | ResetForm

datatype outcome = Fulfilled | Rejected

record form_state =
  formValues :: form_data
  errors :: "string \<rightharpoonup> string"
  effects :: "effect list"

definition defaultValues :: form_data where
  "defaultValues =
     (\<lambda>k. JUndefined)
       (''title'' := JStr [], ''firstName'' := JStr [], ''lastName'' := JStr [],
        ''position'' := JStr [], ''company'' := JStr [], ''businessArena'' := JStr [],
        ''employees'' := JStr [], ''street'' := JStr [], ''additionalInfo'' := JStr [],
        ''zipCode'' := JStr [], ''place'' := JStr [], ''country'' := JStr [],
        ''code'' := JStr [], ''phoneNumber'' := JStr [], ''email'' := JStr [],
        ''acceptTerms'' := JBool False)"

definition do_effect :: "effect \<Rightarrow> form_state \<Rightarrow> form_state" where
  "do_effect x s = s\<lparr>effects := effects s @ [x]\<rparr>"

definition reset :: "form_state \<Rightarrow> form_state" where
  "reset s = (do_effect ResetForm s)\<lparr>formValues := defaultValues, errors := Map.empty\<rparr>"

definition onSubmit :: "outcome \<Rightarrow> outcome \<Rightarrow> form_state \<Rightarrow> form_state" where
  "onSubmit delay swal s =
     (case delay of
        Rejected \<Rightarrow> do_effect (Fire error_dialog) (do_effect (Wait 1000) s)
      | Fulfilled \<Rightarrow>
          (case swal of
             Rejected \<Rightarrow> do_effect (Fire error_dialog)
                          (do_effect (Fire success_dialog) (do_effect (Wait 1000) s))
           | Fulfilled \<Rightarrow> reset (do_effect (Fire success_dialog) (do_effect (Wait 1000) s))))"

definition onError :: "(string \<rightharpoonup> string) \<Rightarrow> form_state \<Rightarrow> form_state" where
  "onError errs s = do_effect (Fire warning_dialog) s"

definition handleSubmit ::
  "(jsstring \<Rightarrow> bool) \<Rightarrow> outcome \<Rightarrow> outcome \<Rightarrow> form_state \<Rightarrow> form_state" where
  "handleSubmit em delay swal s =
     (case zodResolver em (formValues s) of
        Inr d \<Rightarrow> onSubmit delay swal (s\<lparr>errors := Map.empty\<rparr>)
      | Inl errs \<Rightarrow> onError errs (s\<lparr>errors := errs\<rparr>))"

section \<open>The data model of the specification, and sample data\<close>

text \<open>
  The data model of the specification, written from its table of fields alone: the
  fields of the registration record and, per field, the constraint its value has to
  meet. A text field holds a string; ``non-empty'' excludes the empty string; an optional
  field may also be absent; letters are \<open>A-Z\<close> and \<open>a-z\<close>, digits \<open>0-9\<close>. What a
  valid e-mail is, is a parameter here as in the validator.
\<close>

definition spec_fields :: "string list" where
  "spec_fields =
     [''title'', ''firstName'', ''lastName'', ''position'', ''company'', ''businessArena'',
      ''employees'', ''street'', ''additionalInfo'', ''zipCode'', ''place'', ''country'',
      ''code'', ''phoneNumber'', ''email'', ''acceptTerms'']"

fun nonempty_text :: "(jsstring \<Rightarrow> bool) \<Rightarrow> jsval \<Rightarrow> bool" where
  "nonempty_text p (JStr s) \<longleftrightarrow> s \<noteq> [] \<and> p s"
| "nonempty_text p v \<longleftrightarrow> False"

fun optional_text :: "jsval \<Rightarrow> bool" where
  "optional_text JUndefined \<longleftrightarrow> True"
| "optional_text (JStr s) \<longleftrightarrow> True"
| "optional_text v \<longleftrightarrow> False"

definition letters_and_whitespace_only :: "jsstring \<Rightarrow> bool" where
  "letters_and_whitespace_only s \<longleftrightarrow> list_all (\<lambda>c. is_letter c \<or> is_space c) s"

definition digits_only :: "jsstring \<Rightarrow> bool" where
  "digits_only s \<longleftrightarrow> list_all is_digit s"

definition spec_constraint :: "(jsstring \<Rightarrow> bool) \<Rightarrow> string \<Rightarrow> jsval \<Rightarrow> bool" where
  "spec_constraint valid_email f v \<longleftrightarrow>
     (if f = ''title'' then nonempty_text (\<lambda>s. True) v
      else if f = ''firstName'' then nonempty_text letters_and_whitespace_only v
      else if f = ''lastName'' then nonempty_text letters_and_whitespace_only v
      else if f = ''position'' then nonempty_text (\<lambda>s. True) v
      else if f = ''company'' then nonempty_text (\<lambda>s. True) v
      else if f = ''businessArena'' then nonempty_text (\<lambda>s. True) v
      else if f = ''employees'' then nonempty_text (\<lambda>s. True) v
      else if f = ''street'' then nonempty_text (\<lambda>s. True) v
      else if f = ''additionalInfo'' then optional_text v
      else if f = ''zipCode'' then nonempty_text digits_only v
      else if f = ''place'' then nonempty_text (\<lambda>s. True) v
      else if f = ''country'' then nonempty_text (\<lambda>s. True) v
      else if f = ''code'' then nonempty_text digits_only v
      else if f = ''phoneNumber'' then
        nonempty_text (\<lambda>s. digits_only s \<and> 10 \<le> length s \<and> length s \<le> 15) v
      else if f = ''email'' then nonempty_text valid_email v
      else if f = ''acceptTerms'' then v = JBool True
      else True)"

text \<open>A filled-in form, and a crude stand-in for the e-mail test, for concrete runs.\<close>

definition sample_record :: form_data where
  "sample_record =
     defaultValues
       (''title'' := JStr (js ''mr''), ''firstName'' := JStr (js ''John''),
        ''lastName'' := JStr (js ''Doe''), ''position'' := JStr (js ''developer''),
        ''company'' := JStr (js ''Acme''), ''businessArena'' := JStr (js ''Tech''),
        ''employees'' := JStr (js ''1-10''), ''street'' := JStr (js ''1 Main St''),
        ''zipCode'' := JStr (js ''12345''), ''place'' := JStr (js ''colombo''),
        ''country'' := JStr (js ''us''), ''code'' := JStr (js ''94''),
        ''phoneNumber'' := JStr (js ''0771234567''), ''email'' := JStr (js ''john@acme.com''),
        ''acceptTerms'' := JBool True)"

definition has_at :: "jsstring \<Rightarrow> bool" where
  "has_at s \<longleftrightarrow> 0x40 \<in> set s"

definition filled_form :: form_state where
  "filled_form = \<lparr>formValues = sample_record, errors = Map.empty, effects = []\<rparr>"

definition empty_form :: form_state where
  "empty_form = \<lparr>formValues = defaultValues, errors = Map.empty, effects = []\<rparr>"

text \<open>
  Two handler calls on the same field: the first now, the second once the clock has
  reached \<open>t2\<close>.
\<close>

definition name_twice :: "key_event \<Rightarrow> key_event \<Rightarrow> string \<Rightarrow> nat \<Rightarrow> ui_state \<Rightarrow> ui_state" where
  "name_twice e1 e2 f t2 s =
     snd (handleNameInput e2 f (advance t2 (snd (handleNameInput e1 f s))))"

definition numeric_twice :: "key_event \<Rightarrow> key_event \<Rightarrow> string \<Rightarrow> nat \<Rightarrow> ui_state \<Rightarrow> ui_state" where
  "numeric_twice e1 e2 f t2 s =
     snd (handleNumericInput e2 f (advance t2 (snd (handleNumericInput e1 f s))))"

section \<open>The validator: one message per failing field\<close>

lemma toErrors_map_of: "toErrors errs iss = map_of iss ++ errs"
proof (induction iss arbitrary: errs)
  case Nil
  show ?case by simp
next
  case (Cons a iss)
  obtain p m where a: "a = (p, m)" by (cases a)
  show ?case
    unfolding a by (rule ext) (auto simp: Cons.IH map_add_def split: option.splits)
qed

lemma map_of_Pair_issues:
  "map_of (map (Pair k) ms) f =
     (if f = k then (case ms of [] \<Rightarrow> None | m # _ \<Rightarrow> Some m) else None)"
  by (cases ms) (auto simp: map_of_eq_None_iff image_iff)

lemma map_of_object_issues:
  "distinct (map fst shape) \<Longrightarrow>
   map_of (object_issues em shape d) f =
     (case map_of shape f of None \<Rightarrow> None
      | Some t \<Rightarrow> (case zod_issues em t (d f) of [] \<Rightarrow> None | m # _ \<Rightarrow> Some m))"
proof (induction shape)
  case Nil
  show ?case by (simp add: object_issues_def)
next
  case (Cons a shape)
  obtain k t where a: "a = (k, t)" by (cases a)
  have IH: "map_of (object_issues em shape d) f =
     (case map_of shape f of None \<Rightarrow> None
      | Some t \<Rightarrow> (case zod_issues em t (d f) of [] \<Rightarrow> None | m # _ \<Rightarrow> Some m))"
    using Cons by simp
  have k: "map_of shape k = None"
    using Cons.prems by (simp add: a map_of_eq_None_iff)
  have split: "object_issues em (a # shape) d =
      map (Pair k) (zod_issues em t (d k)) @ object_issues em shape d"
    by (simp add: object_issues_def a)
  have "map_of (object_issues em (a # shape) d) f =
          (map_of (object_issues em shape d) ++ map_of (map (Pair k) (zod_issues em t (d k)))) f"
    by (simp only: split map_of_append)
  also have "\<dots> = (case map_of (a # shape) f of None \<Rightarrow> None
      | Some t \<Rightarrow> (case zod_issues em t (d f) of [] \<Rightarrow> None | m # _ \<Rightarrow> Some m))"
  proof (cases "f = k")
    case True
    have "map_of (object_issues em shape d) f = None"
      unfolding IH using k True by simp
    then show ?thesis
      using True by (simp add: map_add_def map_of_Pair_issues a split: list.splits)
  next
    case False
    then show ?thesis
      by (simp add: map_add_def IH map_of_Pair_issues a)
  qed
  finally show ?case .
qed

lemma distinct_schema: "distinct (map fst schema)"
  by (simp add: schema_def)

lemma validate_field:
  "validate em d f =
     (case map_of schema f of None \<Rightarrow> None
      | Some t \<Rightarrow> (case zod_issues em t (d f) of [] \<Rightarrow> None | m # _ \<Rightarrow> Some m))"
  by (simp add: validate_def toErrors_map_of map_of_object_issues [OF distinct_schema])

lemma no_issues_iff:
  "object_issues em shape d = [] \<longleftrightarrow> (\<forall>(k, t) \<in> set shape. zod_issues em t (d k) = [])"
  by (induction shape) (auto simp: object_issues_def)

lemma phoneNumber_cases:
  "validate em d ''phoneNumber'' =
     (case d ''phoneNumber'' of
        JStr s \<Rightarrow>
          if s = [] then Some ''Phone number is required''
          else if \<not> list_all is_digit s then Some ''Only numbers are allowed''
          else if length s < 10 then Some ''Phone number must be at least 10 digits''
          else if length s > 15 then Some ''Phone number must not exceed 15 digits''
          else None
      | JUndefined \<Rightarrow> Some ''Required''
      | v \<Rightarrow> Some (''Expected string, received '' @ getParsedType v))"
  by (cases "d ''phoneNumber''") (auto simp: validate_field schema_def re_digits_def)

lemma validate_empty_iff: "validate em d = Map.empty \<longleftrightarrow> object_issues em schema d = []"
proof
  assume v: "validate em d = Map.empty"
  show "object_issues em schema d = []"
  proof (cases "object_issues em schema d")
    case Nil
    then show ?thesis .
  next
    case (Cons a iss)
    obtain p m where a: "a = (p, m)" by (cases a)
    have "validate em d p = Some m"
      by (simp add: validate_def toErrors_map_of Cons a map_add_def)
    then show ?thesis using v by simp
  qed
next
  assume "object_issues em schema d = []"
  then show "validate em d = Map.empty"
    by (simp add: validate_def)
qed

text \<open>The rules of the schema and the constraints of the data model agree, field by field.\<close>

lemma schema_fields: "map fst schema = spec_fields"
  by (simp add: schema_def spec_fields_def)

lemma rule_required:
  "zod_issues em (ZString [Min 1 m]) v = [] \<longleftrightarrow> nonempty_text (\<lambda>s. True) v"
  by (cases v) auto

lemma rule_letters:
  "zod_issues em (ZString [Min 1 m, Regex re_letters m2]) v = [] \<longleftrightarrow>
     nonempty_text letters_and_whitespace_only v"
  by (cases v) (auto simp: re_letters_def letters_and_whitespace_only_def)

lemma rule_digits:
  "zod_issues em (ZString [Min 1 m, Regex re_digits m2]) v = [] \<longleftrightarrow>
     nonempty_text digits_only v"
  by (cases v) (auto simp: re_digits_def digits_only_def)

lemma rule_phone:
  "zod_issues em (ZString [Min 1 m, Regex re_digits m2, Min 10 m3, Max 15 m4]) v = [] \<longleftrightarrow>
     nonempty_text (\<lambda>s. digits_only s \<and> 10 \<le> length s \<and> length s \<le> 15) v"
  by (cases v) (auto simp: re_digits_def digits_only_def)

lemma rule_email:
  "zod_issues em (ZString [Min 1 m, Email m2]) v = [] \<longleftrightarrow> nonempty_text em v"
  by (cases v) auto

lemma rule_optional:
  "zod_issues em (ZOptional (ZString [])) v = [] \<longleftrightarrow> optional_text v"
  by (cases v) auto

lemma rule_literal:
  "zod_issues em (ZLiteral (JBool True) m) v = [] \<longleftrightarrow> v = JBool True"
  by simp

lemmas rule_meanings = rule_required rule_letters rule_digits rule_phone rule_email rule_optional
  rule_literal

lemma rule_iff_constraint:
  assumes "(f, t) \<in> set schema"
  shows "zod_issues em t v = [] \<longleftrightarrow> spec_constraint em f v"
proof -
  have "(f, t) \<in> set schema \<longrightarrow> (zod_issues em t v = [] \<longleftrightarrow> spec_constraint em f v)"
    unfolding schema_def list.set insert_iff prod.inject empty_iff
    by (intro impI, elim disjE conjE FalseE)
       (simp_all only: rule_meanings, simp_all add: spec_constraint_def)
  then show ?thesis using assms by blast
qed

lemma validate_None_iff:
  "validate em d f = None \<longleftrightarrow> f \<notin> set spec_fields \<or> spec_constraint em f (d f)"
proof (cases "map_of schema f")
  case None
  then have "f \<notin> set spec_fields"
    by (simp add: map_of_eq_None_iff flip: schema_fields)
  then show ?thesis
    using None by (simp add: validate_field)
next
  case (Some t)
  then have m: "(f, t) \<in> set schema"
    by (rule map_of_SomeD)
  then have "f \<in> set spec_fields"
    unfolding schema_fields [symmetric] by force
  then show ?thesis
    using Some rule_iff_constraint [OF m, of em "d f"]
    by (cases "zod_issues em t (d f)") (simp_all add: validate_field)
qed

lemma validate_dom_constraint:
  "dom (validate em d) = {f \<in> set spec_fields. \<not> spec_constraint em f (d f)}"
  using validate_None_iff [of em d] by (auto simp: dom_def)

lemma resolver_accepts_iff:
  "zodResolver em d = Inr d \<longleftrightarrow> (\<forall>f \<in> set spec_fields. spec_constraint em f (d f))"
proof -
  have "zodResolver em d = Inr d \<longleftrightarrow> validate em d = Map.empty"
    by (simp add: zodResolver_def validate_empty_iff)
  also have "\<dots> \<longleftrightarrow> dom (validate em d) = {}"
    by simp
  also have "\<dots> \<longleftrightarrow> (\<forall>f \<in> set spec_fields. spec_constraint em f (d f))"
    unfolding validate_dom_constraint by blast
  finally show ?thesis .
qed

lemma default_fails:
  assumes "f \<in> set spec_fields" "f \<noteq> ''additionalInfo''"
  shows "\<not> spec_constraint em f (defaultValues f)"
proof -
  have "f \<in> set spec_fields \<longrightarrow> f \<noteq> ''additionalInfo'' \<longrightarrow>
        \<not> spec_constraint em f (defaultValues f)"
    unfolding spec_fields_def list.set insert_iff empty_iff
    by (intro impI, elim disjE FalseE) (simp_all add: spec_constraint_def defaultValues_def)
  then show ?thesis using assms by blast
qed

lemma default_message:
  assumes "f \<in> set spec_fields"
  shows "validate em (d(f := defaultValues f)) f \<noteq> Some []"
proof -
  have "f \<in> set spec_fields \<longrightarrow> validate em (d(f := defaultValues f)) f \<noteq> Some []"
    unfolding spec_fields_def list.set insert_iff empty_iff
    by (intro impI, elim disjE FalseE)
       (simp_all add: validate_field schema_def defaultValues_def)
  then show ?thesis using assms by blast
qed

lemma one_field_empty:
  assumes ok: "zodResolver em d = Inr d" and f: "f \<in> set spec_fields" "f \<noteq> ''additionalInfo''"
  shows "dom (validate em (d(f := defaultValues f))) = {f}"
proof -
  have all: "\<forall>g \<in> set spec_fields. spec_constraint em g (d g)"
    using ok by (simp add: resolver_accepts_iff)
  show ?thesis
    unfolding validate_dom_constraint
    using all f default_fails [OF f, of em] by auto
qed

lemma spec_constraint_field:
  "spec_constraint em ''title'' v = nonempty_text (\<lambda>s. True) v"
  "spec_constraint em ''firstName'' v = nonempty_text letters_and_whitespace_only v"
  "spec_constraint em ''lastName'' v = nonempty_text letters_and_whitespace_only v"
  "spec_constraint em ''position'' v = nonempty_text (\<lambda>s. True) v"
  "spec_constraint em ''company'' v = nonempty_text (\<lambda>s. True) v"
  "spec_constraint em ''businessArena'' v = nonempty_text (\<lambda>s. True) v"
  "spec_constraint em ''employees'' v = nonempty_text (\<lambda>s. True) v"
  "spec_constraint em ''street'' v = nonempty_text (\<lambda>s. True) v"
  "spec_constraint em ''additionalInfo'' v = optional_text v"
  "spec_constraint em ''zipCode'' v = nonempty_text digits_only v"
  "spec_constraint em ''place'' v = nonempty_text (\<lambda>s. True) v"
  "spec_constraint em ''country'' v = nonempty_text (\<lambda>s. True) v"
  "spec_constraint em ''code'' v = nonempty_text digits_only v"
  "spec_constraint em ''phoneNumber'' v =
     nonempty_text (\<lambda>s. digits_only s \<and> 10 \<le> length s \<and> length s \<le> 15) v"
  "spec_constraint em ''email'' v = nonempty_text em v"
  "spec_constraint em ''acceptTerms'' v = (v = JBool True)"
  by (simp_all add: spec_constraint_def)

lemma sample_record_field:
  "sample_record ''title'' = JStr (js ''mr'')"
  "sample_record ''firstName'' = JStr (js ''John'')"
  "sample_record ''lastName'' = JStr (js ''Doe'')"
  "sample_record ''position'' = JStr (js ''developer'')"
  "sample_record ''company'' = JStr (js ''Acme'')"
  "sample_record ''businessArena'' = JStr (js ''Tech'')"
  "sample_record ''employees'' = JStr (js ''1-10'')"
  "sample_record ''street'' = JStr (js ''1 Main St'')"
  "sample_record ''additionalInfo'' = JStr []"
  "sample_record ''zipCode'' = JStr (js ''12345'')"
  "sample_record ''place'' = JStr (js ''colombo'')"
  "sample_record ''country'' = JStr (js ''us'')"
  "sample_record ''code'' = JStr (js ''94'')"
  "sample_record ''phoneNumber'' = JStr (js ''0771234567'')"
  "sample_record ''email'' = JStr (js ''john@acme.com'')"
  "sample_record ''acceptTerms'' = JBool True"
  by (simp_all add: sample_record_def defaultValues_def)

lemma sample_meets_constraints:
  "\<forall>g \<in> set spec_fields. spec_constraint has_at g (sample_record g)"
  unfolding spec_fields_def list.set ball_simps spec_constraint_field sample_record_field
  by (simp add: js_def has_at_def letters_and_whitespace_only_def digits_only_def
      is_letter_def is_digit_def is_space_def)

text \<open>
  C1. For every record the validator's mapping has an entry for exactly the fields whose
  value does not meet the constraint the data model gives the field, and no entry for
  the others; the entry of a field depends on the value of that field alone; the
  resolver accepts the record if and only if every field meets its constraint; and an
  accepted record in which one field other than \<open>additionalInfo\<close> is put back to its
  empty default gets a non-empty message for that field and for no other.
\<close>

theorem validator_contract:
  "dom (validate em d) = {f \<in> set spec_fields. \<not> spec_constraint em f (d f)} \<and>
   (\<forall>d'. d' f = d f \<longrightarrow> validate em d' f = validate em d f) \<and>
   (zodResolver em d = Inr d \<longleftrightarrow> (\<forall>g \<in> set spec_fields. spec_constraint em g (d g))) \<and>
   (zodResolver em d = Inr d \<and> f \<in> set spec_fields \<and> f \<noteq> ''additionalInfo'' \<longrightarrow>
      dom (validate em (d(f := defaultValues f))) = {f} \<and>
      validate em (d(f := defaultValues f)) f \<noteq> Some [])"
proof (intro conjI allI impI)
  show "dom (validate em d) = {f \<in> set spec_fields. \<not> spec_constraint em f (d f)}"
    by (rule validate_dom_constraint)
  show "validate em d' f = validate em d f" if "d' f = d f" for d'
    using that by (simp add: validate_field split: option.splits)
  show "zodResolver em d = Inr d \<longleftrightarrow> (\<forall>g \<in> set spec_fields. spec_constraint em g (d g))"
    by (rule resolver_accepts_iff)
  assume h: "zodResolver em d = Inr d \<and> f \<in> set spec_fields \<and> f \<noteq> ''additionalInfo''"
  show "dom (validate em (d(f := defaultValues f))) = {f}"
    using h by (simp add: one_field_empty)
  show "validate em (d(f := defaultValues f)) f \<noteq> Some []"
    using h by (simp add: default_message)
qed

theorem validator_contract_witness:
  "zodResolver has_at sample_record = Inr sample_record \<and>
   dom (validate has_at (sample_record(''firstName'' := defaultValues ''firstName'')))
     = {''firstName''} \<and>
   validate has_at (sample_record(''firstName'' := defaultValues ''firstName'')) ''firstName''
     = Some ''First name is required'' \<and>
   validate has_at (sample_record(''firstName'' := JStr (js ''J0hn''))) ''firstName''
     = Some ''Only letters are allowed'' \<and>
   validate has_at (sample_record(''firstName'' := JStr [])) ''title'' =
     validate has_at sample_record ''title''"
proof -
  note first = validator_contract [of has_at sample_record "''firstName''"]
  note title = validator_contract [of has_at sample_record "''title''"]
  have acc: "zodResolver has_at sample_record = Inr sample_record"
    using first [THEN conjunct2, THEN conjunct2, THEN conjunct1] sample_meets_constraints
    by simp
  have mem: "''firstName'' \<in> set spec_fields" "''firstName'' \<noteq> ''additionalInfo''"
    by (simp_all add: spec_fields_def)
  have one: "dom (validate has_at (sample_record(''firstName'' := defaultValues ''firstName'')))
     = {''firstName''}"
    using first [THEN conjunct2, THEN conjunct2, THEN conjunct2] acc mem by simp
  have msg: "validate has_at (sample_record(''firstName'' := defaultValues ''firstName''))
      ''firstName'' = Some ''First name is required''"
    "validate has_at (sample_record(''firstName'' := JStr (js ''J0hn''))) ''firstName''
     = Some ''Only letters are allowed''"
    by (simp_all add: validate_field schema_def defaultValues_def js_def re_letters_def
        is_letter_def is_space_def)
  have same: "(sample_record(''firstName'' := JStr [])) ''title'' = sample_record ''title''"
    by simp
  have ind: "validate has_at (sample_record(''firstName'' := JStr [])) ''title'' =
     validate has_at sample_record ''title''"
    using title [THEN conjunct2, THEN conjunct1] same by blast
  show ?thesis
    using acc one msg ind by simp
qed

text \<open>
  C3. The phone number passes exactly when it is a string of digits only whose length is
  between 10 and 15; otherwise the message is that of the first failing constraint in the
  order: empty, digits only, at least 10, at most 15. So 9 digits give the message of the
  lower bound and 16 digits that of the upper bound.
\<close>

theorem phoneNumber_first_failure:
  "(validate em d ''phoneNumber'' = None \<longleftrightarrow>
      (\<exists>s. d ''phoneNumber'' = JStr s \<and> list_all is_digit s \<and> 10 \<le> length s \<and> length s \<le> 15)) \<and>
   validate em (d(''phoneNumber'' := JStr s)) ''phoneNumber'' =
     (if s = [] then Some ''Phone number is required''
      else if \<not> list_all is_digit s then Some ''Only numbers are allowed''
      else if length s < 10 then Some ''Phone number must be at least 10 digits''
      else if length s > 15 then Some ''Phone number must not exceed 15 digits''
      else None)"
proof
  show "validate em d ''phoneNumber'' = None \<longleftrightarrow>
      (\<exists>s. d ''phoneNumber'' = JStr s \<and> list_all is_digit s \<and> 10 \<le> length s \<and> length s \<le> 15)"
    unfolding phoneNumber_cases by (cases "d ''phoneNumber''") auto
  show "validate em (d(''phoneNumber'' := JStr s)) ''phoneNumber'' =
     (if s = [] then Some ''Phone number is required''
      else if \<not> list_all is_digit s then Some ''Only numbers are allowed''
      else if length s < 10 then Some ''Phone number must be at least 10 digits''
      else if length s > 15 then Some ''Phone number must not exceed 15 digits''
      else None)"
    unfolding phoneNumber_cases by simp
qed

theorem phoneNumber_first_failure_witness:
  "validate has_at (sample_record(''phoneNumber'' := JStr (js ''077123456''))) ''phoneNumber''
     = Some ''Phone number must be at least 10 digits'' \<and>
   validate has_at (sample_record(''phoneNumber'' := JStr (js ''0771234567890123''))) ''phoneNumber''
     = Some ''Phone number must not exceed 15 digits'' \<and>
   validate has_at (sample_record(''phoneNumber'' := JStr (js ''12a''))) ''phoneNumber''
     = Some ''Only numbers are allowed'' \<and>
   validate has_at (sample_record(''phoneNumber'' := JStr [])) ''phoneNumber''
     = Some ''Phone number is required''"
  using phoneNumber_first_failure [of has_at sample_record "js ''077123456''"]
    phoneNumber_first_failure [of has_at sample_record "js ''0771234567890123''"]
    phoneNumber_first_failure [of has_at sample_record "js ''12a''"]
    phoneNumber_first_failure [of has_at sample_record "[]"]
  by (simp add: js_def is_digit_def)

text \<open>
  C6. The field \<open>acceptTerms\<close> passes if and only if its value is the boolean \<open>true\<close>;
  every other value, the absent one included, gets the fixed message.
\<close>

theorem acceptTerms_strictly_true:
  "validate em d ''acceptTerms'' =
     (if d ''acceptTerms'' = JBool True then None else Some ''You must accept the terms'')"
  by (simp add: validate_field schema_def)

theorem acceptTerms_strictly_true_witness:
  "validate has_at (sample_record(''acceptTerms'' := JStr (js ''true''))) ''acceptTerms''
     = Some ''You must accept the terms'' \<and>
   validate has_at (sample_record(''acceptTerms'' := JNum 1)) ''acceptTerms''
     = Some ''You must accept the terms'' \<and>
   validate has_at (sample_record(''acceptTerms'' := JUndefined)) ''acceptTerms''
     = Some ''You must accept the terms'' \<and>
   validate has_at (sample_record(''acceptTerms'' := JBool False)) ''acceptTerms''
     = Some ''You must accept the terms'' \<and>
   validate has_at sample_record ''acceptTerms'' = None"
  using acceptTerms_strictly_true [of has_at "sample_record(''acceptTerms'' := JStr (js ''true''))"]
    acceptTerms_strictly_true [of has_at "sample_record(''acceptTerms'' := JNum 1)"]
    acceptTerms_strictly_true [of has_at "sample_record(''acceptTerms'' := JUndefined)"]
    acceptTerms_strictly_true [of has_at "sample_record(''acceptTerms'' := JBool False)"]
    acceptTerms_strictly_true [of has_at sample_record]
  by (simp add: sample_record_def)

section \<open>The input filter and its timers\<close>

lemma handleNameInput_eq:
  "handleNameInput e f s =
     (if re_any_digit (key e)
      then (True, s\<lparr>nameErrors := (nameErrors s)(f \<mapsto> ''Numbers are not allowed in this field''),
                    timers := timers s @ [(now s + 2000, ClearName f)]\<rparr>)
      else (False, s))"
  by (simp add: handleNameInput_def setTimeout_def setNameErrors_def)

lemma handleNumericInput_eq:
  "handleNumericInput e f s =
     (if \<not> re_any_digit (key e) \<and> key e \<noteq> js ''Backspace'' \<and>
         key e \<noteq> js ''Delete'' \<and> key e \<noteq> js ''Tab''
      then (True, s\<lparr>numericErrors := (numericErrors s)(f \<mapsto> ''Only numbers are allowed in this field''),
                    timers := timers s @ [(now s + 2000, ClearNumeric f)]\<rparr>)
      else if re_any_digit (key e) \<and> length (target_value e) \<ge> 10
      then (True, s\<lparr>numericErrors := (numericErrors s)(f \<mapsto> ''Maximum 10 digits allowed''),
                    timers := timers s @ [(now s + 2000, ClearNumeric f)]\<rparr>)
      else (False, s))"
  by (simp add: handleNumericInput_def setTimeout_def setNumericErrors_def)

lemma key_tests:
  "re_any_digit (js ''1'')" "\<not> re_any_digit (js ''a'')" "re_any_digit (js ''F1'')"
  "js ''a'' \<noteq> js ''Backspace''" "js ''a'' \<noteq> js ''Delete''" "js ''a'' \<noteq> js ''Tab''"
  by (simp_all add: re_any_digit_def js_def is_digit_def)

text \<open>Firing a list of timers clears the fields named in it and nothing else.\<close>

lemma nameErrors_fold:
  "nameErrors (fold (\<lambda>(d, cb). run_callback cb) L s) f =
     (if ClearName f \<in> snd ` set L then Some [] else nameErrors s f)"
proof (induction L arbitrary: s)
  case Nil
  show ?case by simp
next
  case (Cons a L)
  obtain d cb where a: "a = (d, cb)" by (cases a)
  show ?case
    by (cases cb) (auto simp: a Cons.IH setNameErrors_def setNumericErrors_def)
qed

lemma numericErrors_fold:
  "numericErrors (fold (\<lambda>(d, cb). run_callback cb) L s) f =
     (if ClearNumeric f \<in> snd ` set L then Some [] else numericErrors s f)"
proof (induction L arbitrary: s)
  case Nil
  show ?case by simp
next
  case (Cons a L)
  obtain d cb where a: "a = (d, cb)" by (cases a)
  show ?case
    by (cases cb) (auto simp: a Cons.IH setNameErrors_def setNumericErrors_def)
qed

lemma due_set:
  "cb \<in> snd ` set (sort_key fst (filter (\<lambda>(d, cb). d \<le> t) L)) \<longleftrightarrow>
     (\<exists>d. d \<le> t \<and> (d, cb) \<in> set L)"
  by (auto simp: image_iff)

lemma nameErrors_advance:
  "nameErrors (advance t s) f =
     (if \<exists>d. d \<le> t \<and> (d, ClearName f) \<in> set (timers s) then Some [] else nameErrors s f)"
  unfolding advance_def Let_def
  by (simp add: nameErrors_fold due_set del: set_sort set_filter)

lemma numericErrors_advance:
  "numericErrors (advance t s) f =
     (if \<exists>d. d \<le> t \<and> (d, ClearNumeric f) \<in> set (timers s) then Some []
      else numericErrors s f)"
  unfolding advance_def Let_def
  by (simp add: numericErrors_fold due_set del: set_sort set_filter)

lemma timers_advance [simp]:
  "timers (advance t s) = filter (\<lambda>(d, cb). \<not> d \<le> t) (timers s)"
  "now (advance t s) = max (now s) t"
  unfolding advance_def Let_def by simp_all



lemma name_handler_timers:
  "timers (snd (handleNameInput e X s)) =
     (if fst (handleNameInput e X s) then timers s @ [(now s + 2000, ClearName X)]
      else timers s)"
  by (simp add: handleNameInput_eq)

lemma numeric_handler_timers:
  "timers (snd (handleNumericInput e X s)) =
     (if fst (handleNumericInput e X s) then timers s @ [(now s + 2000, ClearNumeric X)]
      else timers s)"
  by (simp add: handleNumericInput_eq)





lemma name_twice_pending:
  assumes "fst (handleNameInput e1 f s)" "t2 < now s + 2000"
  shows "(now s + 2000, ClearName f) \<in> set (timers (name_twice e1 e2 f t2 s))"
  using assms by (simp add: name_twice_def name_handler_timers)

lemma numeric_twice_pending:
  assumes "fst (handleNumericInput e1 f s)" "t2 < now s + 2000"
  shows "(now s + 2000, ClearNumeric f) \<in> set (timers (numeric_twice e1 e2 f t2 s))"
  using assms by (simp add: numeric_twice_def numeric_handler_timers)

lemma name_twice_cleared:
  assumes "fst (handleNameInput e1 f s)" "t2 < now s + 2000" "now s + 2000 \<le> T"
  shows "nameErrors (advance T (name_twice e1 e2 f t2 s)) f = Some []"
  unfolding nameErrors_advance using name_twice_pending [OF assms(1,2)] assms(3) by auto

lemma numeric_twice_cleared:
  assumes "fst (handleNumericInput e1 f s)" "t2 < now s + 2000" "now s + 2000 \<le> T"
  shows "numericErrors (advance T (numeric_twice e1 e2 f t2 s)) f = Some []"
  unfolding numericErrors_advance using numeric_twice_pending [OF assms(1,2)] assms(3) by auto

text \<open>Until the first of the two timers is due the error stays as the handlers set it.\<close>

lemma name_twice_still_set:
  assumes r: "fst (handleNameInput e1 f s)" and old: "\<forall>d. (d, ClearName f) \<notin> set (timers s)"
    and t2: "t2 < now s + 2000" and T: "T < now s + 2000"
  shows "nameErrors (advance T (name_twice e1 e2 f t2 s)) f =
           Some ''Numbers are not allowed in this field''"
proof -
  let ?m = "''Numbers are not allowed in this field''"
  let ?s1 = "snd (handleNameInput e1 f s)"
  let ?s1' = "advance t2 ?s1"
  let ?s2 = "snd (handleNameInput e2 f ?s1')"
  have s1: "nameErrors ?s1 f = Some ?m" "now ?s1 = now s"
    "timers ?s1 = timers s @ [(now s + 2000, ClearName f)]"
    using r by (simp_all add: handleNameInput_eq split: if_splits)
  have s1': "nameErrors ?s1' f = Some ?m"
    unfolding nameErrors_advance using old t2 by (auto simp: s1)
  have due1: "now s + 2000 \<le> d" if "(d, ClearName f) \<in> set (timers ?s1')" for d
    using that old by (auto simp: s1 split: if_splits)
  have s2: "nameErrors ?s2 f = Some ?m"
    using s1' by (simp add: handleNameInput_eq)
  have due2: "now s + 2000 \<le> d" if "(d, ClearName f) \<in> set (timers ?s2)" for d
    using that due1 by (auto simp: name_handler_timers s1 split: if_splits)
  have "\<not> (\<exists>d. d \<le> T \<and> (d, ClearName f) \<in> set (timers ?s2))"
    using due2 T by fastforce
  then show ?thesis
    unfolding nameErrors_advance name_twice_def using s2 by simp
qed

lemma editing_keys:
  "\<not> re_any_digit (js ''Backspace'')" "\<not> re_any_digit (js ''Delete'')"
  "\<not> re_any_digit (js ''Tab'')"
  by (simp_all add: re_any_digit_def js_def is_digit_def)

lemma numeric_handler_sets:
  "fst (handleNumericInput e f s) \<Longrightarrow>
   numericErrors (snd (handleNumericInput e f s)) f \<in>
     {Some ''Only numbers are allowed in this field'', Some ''Maximum 10 digits allowed''}"
  unfolding handleNumericInput_eq by (auto simp: editing_keys split: if_splits)

lemma numeric_handler_keeps:
  "\<not> fst (handleNumericInput e f s) \<Longrightarrow> snd (handleNumericInput e f s) = s"
  unfolding handleNumericInput_eq by (auto simp: editing_keys split: if_splits)

lemma numeric_handler_now: "now (snd (handleNumericInput e f s)) = now s"
  unfolding handleNumericInput_eq by simp

lemma numeric_twice_still_set:
  assumes r: "fst (handleNumericInput e1 f s)"
    and old: "\<forall>d. (d, ClearNumeric f) \<notin> set (timers s)"
    and t2: "t2 < now s + 2000" and T: "T < now s + 2000"
  shows "numericErrors (advance T (numeric_twice e1 e2 f t2 s)) f \<in>
           {Some ''Only numbers are allowed in this field'', Some ''Maximum 10 digits allowed''}"
proof -
  let ?M = "{Some ''Only numbers are allowed in this field'', Some ''Maximum 10 digits allowed''}"
  let ?s1 = "snd (handleNumericInput e1 f s)"
  let ?s1' = "advance t2 ?s1"
  let ?s2 = "snd (handleNumericInput e2 f ?s1')"
  have s1: "numericErrors ?s1 f \<in> ?M"
    using r by (rule numeric_handler_sets)
  have tm1: "timers ?s1 = timers s @ [(now s + 2000, ClearNumeric f)]"
    using r by (simp add: numeric_handler_timers)
  have "\<not> (\<exists>d. d \<le> t2 \<and> (d, ClearNumeric f) \<in> set (timers ?s1))"
    using old t2 by (auto simp: tm1)
  then have s1': "numericErrors ?s1' f \<in> ?M"
    unfolding numericErrors_advance using s1 by simp
  have due1: "now s + 2000 \<le> d" if "(d, ClearNumeric f) \<in> set (timers ?s1')" for d
    using that old by (auto simp: tm1 split: if_splits)
  have s2: "numericErrors ?s2 f \<in> ?M"
  proof (cases "fst (handleNumericInput e2 f ?s1')")
    case True
    then show ?thesis by (rule numeric_handler_sets)
  next
    case False
    then show ?thesis using s1' by (simp add: numeric_handler_keeps)
  qed
  have due2: "now s + 2000 \<le> d" if "(d, ClearNumeric f) \<in> set (timers ?s2)" for d
    using that due1
    by (auto simp: numeric_handler_timers [of e2 f ?s1'] numeric_handler_now split: if_splits)
  have "\<not> (\<exists>d. d \<le> T \<and> (d, ClearNumeric f) \<in> set (timers ?s2))"
    using due2 T by fastforce
  then show ?thesis
    unfolding numericErrors_advance numeric_twice_def using s2 by simp
qed


text \<open>Typing never brings a digit into a name field.\<close>

lemma default_insert_no_digit:
  "\<not> re_any_digit k \<Longrightarrow> \<not> re_any_digit v \<Longrightarrow> \<not> re_any_digit (default_insert k caret v)"
  by (auto simp: default_insert_def re_any_digit_def list_ex_iff
      dest: in_set_takeD in_set_dropD)

lemma keypress_name_no_digit:
  "\<not> re_any_digit (fst vs) \<Longrightarrow> \<not> re_any_digit (fst (keypress_name f kc vs))"
  by (simp add: keypress_name_def handleNameInput_eq default_insert_no_digit)

lemma type_keys_no_digit:
  "\<not> re_any_digit (fst vs) \<Longrightarrow> \<not> re_any_digit (fst (type_keys f ks vs))"
  unfolding type_keys_def
proof (induction ks arbitrary: vs)
  case Nil
  then show ?case by simp
next
  case (Cons k ks)
  show ?case
    using Cons.IH [OF keypress_name_no_digit [OF Cons.prems]] by simp
qed

text \<open>
  C2. On a numeric field the key \<open>F1\<close> is neither a digit nor one of Backspace, Delete
  and Tab, yet the handler does not suppress it and sets no error: the unanchored test
  \<open>/[0-9]/\<close> finds the digit in the key's name. Once the value has ten characters the
  same key is suppressed with the message of the length cap.
\<close>

theorem function_key_passes_numeric_filter:
  "handleNumericInput \<lparr>key = js ''F1'', target_value = js ''123''\<rparr> ''zipCode'' initial_ui
     = (False, initial_ui) \<and>
   handleNumericInput \<lparr>key = js ''F1'', target_value = js ''0771234567''\<rparr> ''zipCode'' initial_ui
     = (True, initial_ui
          \<lparr>numericErrors := (numericErrors initial_ui)(''zipCode'' \<mapsto> ''Maximum 10 digits allowed''),
           timers := [(2000, ClearNumeric ''zipCode'')]\<rparr>)"
  by (simp add: handleNumericInput_eq key_tests initial_ui_def) (simp add: js_def)

text \<open>
  C4, as the code has it. No timer is cancelled or restarted: when a field is rejected
  again less than 2000 ms after a first rejection, the timer of the first rejection is
  still pending after the second one, and the field's transient error is the empty
  message from 2000 ms after the first rejection on, in both mappings. Before that
  moment the error is set, when no older timer of the field was pending.
\<close>

theorem timers_are_not_restarted:
  "t2 < now s + 2000 \<and> now s + 2000 \<le> T \<Longrightarrow>
   (fst (handleNameInput e1 f s) \<longrightarrow>
      (now s + 2000, ClearName f) \<in> set (timers (name_twice e1 e2 f t2 s)) \<and>
      nameErrors (advance T (name_twice e1 e2 f t2 s)) f = Some [] \<and>
      ((\<forall>d. (d, ClearName f) \<notin> set (timers s)) \<and> T' < now s + 2000 \<longrightarrow>
         nameErrors (advance T' (name_twice e1 e2 f t2 s)) f =
           Some ''Numbers are not allowed in this field'')) \<and>
   (fst (handleNumericInput e1 f s) \<longrightarrow>
      (now s + 2000, ClearNumeric f) \<in> set (timers (numeric_twice e1 e2 f t2 s)) \<and>
      numericErrors (advance T (numeric_twice e1 e2 f t2 s)) f = Some [] \<and>
      ((\<forall>d. (d, ClearNumeric f) \<notin> set (timers s)) \<and> T' < now s + 2000 \<longrightarrow>
         numericErrors (advance T' (numeric_twice e1 e2 f t2 s)) f \<in>
           {Some ''Only numbers are allowed in this field'', Some ''Maximum 10 digits allowed''}))"
proof (intro conjI impI)
  assume h: "t2 < now s + 2000 \<and> now s + 2000 \<le> T"
  {
    assume r: "fst (handleNameInput e1 f s)"
    show "(now s + 2000, ClearName f) \<in> set (timers (name_twice e1 e2 f t2 s))"
      using r h by (simp add: name_twice_pending)
    show "nameErrors (advance T (name_twice e1 e2 f t2 s)) f = Some []"
      using r h by (simp add: name_twice_cleared)
    assume "(\<forall>d. (d, ClearName f) \<notin> set (timers s)) \<and> T' < now s + 2000"
    then show "nameErrors (advance T' (name_twice e1 e2 f t2 s)) f =
           Some ''Numbers are not allowed in this field''"
      using r h name_twice_still_set [of e1 f s t2 T' e2] by blast
  }
  {
    assume r: "fst (handleNumericInput e1 f s)"
    show "(now s + 2000, ClearNumeric f) \<in> set (timers (numeric_twice e1 e2 f t2 s))"
      using r h by (simp add: numeric_twice_pending)
    show "numericErrors (advance T (numeric_twice e1 e2 f t2 s)) f = Some []"
      using r h by (simp add: numeric_twice_cleared)
    assume "(\<forall>d. (d, ClearNumeric f) \<notin> set (timers s)) \<and> T' < now s + 2000"
    then show "numericErrors (advance T' (numeric_twice e1 e2 f t2 s)) f \<in>
           {Some ''Only numbers are allowed in this field'', Some ''Maximum 10 digits allowed''}"
      using r h numeric_twice_still_set [of e1 f s t2 T' e2] by blast
  }
qed

theorem timers_are_not_restarted_witness:
  "nameErrors (advance 2000 (name_twice \<lparr>key = js ''1'', target_value = []\<rparr>
       \<lparr>key = js ''1'', target_value = []\<rparr> ''firstName'' 1500 initial_ui)) ''firstName'' = Some [] \<and>
   nameErrors (advance 1999 (name_twice \<lparr>key = js ''1'', target_value = []\<rparr>
       \<lparr>key = js ''1'', target_value = []\<rparr> ''firstName'' 1500 initial_ui)) ''firstName''
     = Some ''Numbers are not allowed in this field'' \<and>
   numericErrors (advance 2000 (numeric_twice \<lparr>key = js ''a'', target_value = []\<rparr>
       \<lparr>key = js ''a'', target_value = []\<rparr> ''zipCode'' 1500 initial_ui)) ''zipCode'' = Some [] \<and>
   numericErrors (advance 1999 (numeric_twice \<lparr>key = js ''a'', target_value = []\<rparr>
       \<lparr>key = js ''a'', target_value = []\<rparr> ''zipCode'' 1500 initial_ui)) ''zipCode''
     \<in> {Some ''Only numbers are allowed in this field'', Some ''Maximum 10 digits allowed''}"
proof -
  have rej: "fst (handleNameInput \<lparr>key = js ''1'', target_value = []\<rparr> ''firstName'' initial_ui)"
    "fst (handleNumericInput \<lparr>key = js ''a'', target_value = []\<rparr> ''zipCode'' initial_ui)"
    by (simp_all add: handleNameInput_eq handleNumericInput_eq key_tests)
  have t0: "1500 < now initial_ui + 2000 \<and> now initial_ui + 2000 \<le> 2000"
    "1999 < now initial_ui + 2000"
    "\<forall>d. (d, ClearName ''firstName'') \<notin> set (timers initial_ui)"
    "\<forall>d. (d, ClearNumeric ''zipCode'') \<notin> set (timers initial_ui)"
    by (simp_all add: initial_ui_def)
  show ?thesis
    using timers_are_not_restarted [OF t0(1), of "\<lparr>key = js ''1'', target_value = []\<rparr>"
        "''firstName''" "\<lparr>key = js ''1'', target_value = []\<rparr>" 1999] 
      timers_are_not_restarted [OF t0(1), of "\<lparr>key = js ''a'', target_value = []\<rparr>"
        "''zipCode''" "\<lparr>key = js ''a'', target_value = []\<rparr>" 1999]
      rej t0(2,3,4)
    by blast
qed

text \<open>
  C4 as the specification states it fails: a digit is rejected on \<open>firstName\<close> at time 0
  and again at time 1500. The error is still shown at time 1999 and is empty at time
  2000, which is only 500 ms after the most recent rejection.
\<close>

theorem restart_counterexample:
  "nameErrors (advance 1999 (name_twice \<lparr>key = js ''1'', target_value = []\<rparr>
       \<lparr>key = js ''1'', target_value = []\<rparr> ''firstName'' 1500 initial_ui)) ''firstName''
     = Some ''Numbers are not allowed in this field'' \<and>
   nameErrors (advance 2000 (name_twice \<lparr>key = js ''1'', target_value = []\<rparr>
       \<lparr>key = js ''1'', target_value = []\<rparr> ''firstName'' 1500 initial_ui)) ''firstName''
     = Some [] \<and>
   (2000::nat) < 1500 + 2000"
  by (auto simp: nameErrors_advance name_twice_def handleNameInput_eq key_tests initial_ui_def)

text \<open>
  C5. On a name field a digit keystroke is suppressed, sets the field's transient error
  to the fixed message and schedules the clearing of that field 2000 ms later; and
  a value without a digit stays without a digit whatever keys are typed.
\<close>

theorem name_field_digit_filter:
  "(is_digit c \<longrightarrow>
      handleNameInput \<lparr>key = [c], target_value = v\<rparr> f s =
        (True, s\<lparr>nameErrors := (nameErrors s)(f \<mapsto> ''Numbers are not allowed in this field''),
                  timers := timers s @ [(now s + 2000, ClearName f)]\<rparr>)) \<and>
   (\<not> re_any_digit v \<longrightarrow> \<not> re_any_digit (fst (type_keys f ks (v, s))))"
  using type_keys_no_digit [of "(v, s)" f ks]
  by (simp add: handleNameInput_eq re_any_digit_def)

theorem name_field_digit_filter_witness:
  "handleNameInput \<lparr>key = [0x31], target_value = js ''A''\<rparr> ''firstName'' initial_ui =
     (True, initial_ui
        \<lparr>nameErrors := (nameErrors initial_ui)
           (''firstName'' \<mapsto> ''Numbers are not allowed in this field''),
         timers := timers initial_ui @ [(now initial_ui + 2000, ClearName ''firstName'')]\<rparr>) \<and>
   \<not> re_any_digit (fst (type_keys ''firstName''
         [(js ''A'', 0), (js ''1'', 1), (js ''b'', 1), (js ''2'', 2)] ([], initial_ui))) \<and>
   fst (type_keys ''firstName''
         [(js ''A'', 0), (js ''1'', 1), (js ''b'', 1), (js ''2'', 2)] ([], initial_ui)) = js ''Ab''"
proof -
  have d: "is_digit 0x31" by (simp add: is_digit_def)
  have e: "\<not> re_any_digit []" by (simp add: re_any_digit_def)
  have run: "fst (type_keys ''firstName''
         [(js ''A'', 0), (js ''1'', 1), (js ''b'', 1), (js ''2'', 2)] ([], initial_ui)) = js ''Ab''"
    by (simp add: type_keys_def keypress_name_def handleNameInput_eq default_insert_def
        re_any_digit_def is_digit_def js_def)
  show ?thesis
    using name_field_digit_filter [of "0x31" "js ''A''" "''firstName''" initial_ui]
      name_field_digit_filter [of "0x31" "[]" "''firstName''" initial_ui
        "[(js ''A'', 0), (js ''1'', 1), (js ''b'', 1), (js ''2'', 2)]"] d e run
    by simp
qed



text \<open>
  C10. For a digit keystroke on a numeric field the handler looks at the length of the
  current value only, whatever the value contains: the keystroke is suppressed with the
  message of the cap exactly when that length is at least 10, and otherwise nothing
  happens.
\<close>

theorem numeric_cap_counts_length:
  "is_digit c \<Longrightarrow>
   handleNumericInput \<lparr>key = [c], target_value = v\<rparr> f s =
     (if length v \<ge> 10
      then (True, s\<lparr>numericErrors := (numericErrors s)(f \<mapsto> ''Maximum 10 digits allowed''),
                    timers := timers s @ [(now s + 2000, ClearNumeric f)]\<rparr>)
      else (False, s))"
  by (simp add: handleNumericInput_eq re_any_digit_def)

theorem numeric_cap_counts_length_witness:
  "handleNumericInput \<lparr>key = [0x37], target_value = js ''abcdefghij''\<rparr> ''phoneNumber'' initial_ui =
     (True, initial_ui
        \<lparr>numericErrors := (numericErrors initial_ui)(''phoneNumber'' \<mapsto> ''Maximum 10 digits allowed''),
         timers := timers initial_ui @ [(now initial_ui + 2000, ClearNumeric ''phoneNumber'')]\<rparr>) \<and>
   handleNumericInput \<lparr>key = [0x37], target_value = js ''123456789''\<rparr> ''phoneNumber'' initial_ui =
     (False, initial_ui)"
proof -
  have d: "is_digit 0x37" by (simp add: is_digit_def)
  show ?thesis
    using numeric_cap_counts_length [OF d, of "js ''abcdefghij''" "''phoneNumber''" initial_ui]
      numeric_cap_counts_length [OF d, of "js ''123456789''" "''phoneNumber''" initial_ui]
    by (simp add: js_def)
qed

section \<open>The submission flow\<close>

lemma handleSubmit_valid:
  "validate em (formValues s) = Map.empty \<Longrightarrow>
   handleSubmit em delay swal s = onSubmit delay swal (s\<lparr>errors := Map.empty\<rparr>)"
  by (simp add: handleSubmit_def zodResolver_def validate_empty_iff)

lemma handleSubmit_invalid:
  "validate em (formValues s) \<noteq> Map.empty \<Longrightarrow>
   handleSubmit em delay swal s =
     onError (validate em (formValues s)) (s\<lparr>errors := validate em (formValues s)\<rparr>)"
  by (simp add: handleSubmit_def zodResolver_def validate_empty_iff)

lemma sample_valid: "validate has_at sample_record = Map.empty"
  using resolver_accepts_iff [of has_at sample_record] sample_meets_constraints
  by (simp add: validate_empty_iff zodResolver_def split: if_splits)

lemma defaults_invalid: "validate has_at defaultValues \<noteq> Map.empty"
proof
  assume "validate has_at defaultValues = Map.empty"
  then have "validate has_at defaultValues ''title'' = None" by simp
  then show False
    by (simp add: validate_field schema_def defaultValues_def)
qed

text \<open>
  C7. When the record passes validation the flow waits on the simulated operation; when
  that and the success dialog complete, the success dialog has been shown and the record
  is reset to the default values. When the simulated operation raises, the error dialog
  is shown and the record is as it was, with no reset.
\<close>

theorem submit_of_valid_record:
  "validate em (formValues s) = Map.empty \<Longrightarrow>
   handleSubmit em Fulfilled Fulfilled s =
     \<lparr>formValues = defaultValues, errors = Map.empty,
      effects = effects s @ [Wait 1000, Fire success_dialog, ResetForm]\<rparr> \<and>
   handleSubmit em Rejected swal s =
     s\<lparr>errors := Map.empty, effects := effects s @ [Wait 1000, Fire error_dialog]\<rparr> \<and>
   formValues (handleSubmit em Rejected swal s) = formValues s"
  by (simp add: handleSubmit_valid onSubmit_def reset_def do_effect_def)

theorem submit_of_valid_record_witness:
  "handleSubmit has_at Fulfilled Fulfilled filled_form =
     \<lparr>formValues = defaultValues, errors = Map.empty,
      effects = [Wait 1000, Fire success_dialog, ResetForm]\<rparr> \<and>
   handleSubmit has_at Rejected Fulfilled filled_form =
     \<lparr>formValues = sample_record, errors = Map.empty,
      effects = [Wait 1000, Fire error_dialog]\<rparr>"
  using submit_of_valid_record [of has_at filled_form Fulfilled] sample_valid
  by (simp add: filled_form_def)

text \<open>
  C8. When some field of the submitted record is invalid, the flow shows the one warning
  dialog, whose text does not depend on which fields failed, and does nothing else: no
  wait on the simulated operation, no reset, and the record is unchanged.
\<close>

theorem submit_of_invalid_record:
  "validate em (formValues s) \<noteq> Map.empty \<Longrightarrow>
   handleSubmit em delay swal s =
     s\<lparr>errors := validate em (formValues s), effects := effects s @ [Fire warning_dialog]\<rparr> \<and>
   formValues (handleSubmit em delay swal s) = formValues s \<and>
   body_text warning_dialog = ''Please check all required fields''"
  by (simp add: handleSubmit_invalid onError_def do_effect_def warning_dialog_def)

theorem submit_of_invalid_record_witness:
  "formValues (handleSubmit has_at Fulfilled Fulfilled empty_form) = defaultValues \<and>
   effects (handleSubmit has_at Fulfilled Fulfilled empty_form) = [Fire warning_dialog] \<and>
   errors (handleSubmit has_at Fulfilled Fulfilled empty_form) ''title'' = Some ''Title is required''"
  using submit_of_invalid_record [of has_at empty_form Fulfilled Fulfilled] defaults_invalid
  by (simp add: empty_form_def validate_field schema_def defaultValues_def)

end
